theory Spec2Isabelle
  imports Main "HOL-Library.Word"
begin

unbundle bit_operations_syntax

section \<open>Data model of the network module\<close>

text \<open>
  Errors are values. \<open>Errorf\<close> is an error built by \<^verbatim>\<open>fmt.Errorf\<close>, \<open>Wrap\<close> is
  \<^verbatim>\<open>errors.Wrapf(err, msg)\<close>, \<open>Ext\<close> is an error reported by a library or by the
  operating system, and \<open>NotExist\<close> is one for which \<^verbatim>\<open>os.IsNotExist\<close> holds.
\<close>

datatype error = Errorf string | Ext string | NotExist string | Wrap error string

type_synonym byte = "8 word"

text \<open>\<^verbatim>\<open>net.IP\<close> and \<^verbatim>\<open>net.IPMask\<close> are byte slices; the nil slice is the empty list.\<close>

type_synonym ip = "byte list"
type_synonym ipmask = "byte list"

record ipnet =
  net_IP :: ip
  net_Mask :: ipmask

text \<open>
  Modelled from the spec: the declarations of package \<^verbatim>\<open>modules\<close> (NodeID, NetResource,
  Network, Peer, the connection types and the reachability constants) are not among the
  sources. The fields are the ones \<^verbatim>\<open>net_resource.go\<close> reads; each reachability
  classification is one of Public, Hidden (ULA for IPv6) and Unknown, and a connection
  type is either the WireGuard tunnel or something else.
\<close>

datatype ConnType = ConnTypeWireguard | ConnTypeOther

datatype ReachabilityV4 = ReachabilityV4Public | ReachabilityV4Hidden | ReachabilityV4Unknown

datatype ReachabilityV6 = ReachabilityV6Public | ReachabilityV6ULA | ReachabilityV6Unknown

record node_id =
  ID :: string
  ReachabilityV4 :: ReachabilityV4
  ReachabilityV6 :: ReachabilityV6

record wireguard_conn =
  IP :: ip
  Port :: "16 word"
  Key :: string

record peer =
  PeerType :: ConnType
  PeerPrefix :: ipnet
  Connection :: wireguard_conn

record net_resource =
  NodeID :: node_id
  Prefix :: ipnet
  LinkLocal :: ipnet
  Peers :: "peer list"

record network =
  Resources :: "net_resource list"
  Exit :: net_resource
  AllocationNR :: int

text \<open>\<^verbatim>\<open>wireguard.Peer\<close> and \<^verbatim>\<open>netlink.Route\<close>, with the fields the planner fills in.
  A field the code leaves out has Go's zero value (the empty string, 0).\<close>

record wg_peer =
  PublicKey :: string
  Endpoint :: string
  AllowedIPs :: "string list"

record route =
  LinkIndex :: int
  Dst :: ipnet
  Gw :: ip

text \<open>
  A \<^verbatim>\<open>zosip.Nibble\<close> is used through its parameterless methods only, so it is the
  record of what they return. \<^verbatim>\<open>ToV4\<close> yields two bytes or an error.
\<close>

record nibble =
  Hex :: string
  ToV4 :: "error + (byte \<times> byte)"
  NetworkName :: string
  WiregardName :: string

text \<open>
  Functions of Go's standard library and of package \<^verbatim>\<open>zosip\<close> that the planner calls
  and whose code is not among the sources. They are parameters of the model: every
  theorem below holds for any choice of them.
\<close>

record lib =
  IPNet_String :: "ipnet \<Rightarrow> string"
  IP_String :: "ip \<Rightarrow> string"
  ParseIP :: "string \<Rightarrow> ip"
  NewNibble :: "ipnet \<Rightarrow> int \<Rightarrow> nibble"
  filepath_Join :: "string \<Rightarrow> string \<Rightarrow> string"

section \<open>Formatting and address helpers\<close>

text \<open>The verb \<^verbatim>\<open>%d\<close> of \<^verbatim>\<open>fmt.Sprintf\<close> on an unsigned value: its decimal digits.\<close>

definition digit :: "nat \<Rightarrow> char" where
  "digit n = ''0123456789'' ! n"

function fmt_d :: "nat \<Rightarrow> string" where
  "fmt_d n = (if n < 10 then [digit n] else fmt_d (n div 10) @ [digit (n mod 10)])"
  by pat_completeness auto
termination
  by (relation "measure id") auto

declare fmt_d.simps [simp del]

text \<open>\<^verbatim>\<open>net.IP.To16\<close>: a 4-byte address is returned in its 16-byte IPv4-in-IPv6 form, a
  16-byte address as it is, anything else gives nil.\<close>

definition v4InV6Prefix :: "byte list" where
  "v4InV6Prefix = [0, 0, 0, 0, 0, 0, 0, 0, 0, 0, 0xff, 0xff]"

definition To16 :: "ip \<Rightarrow> ip" where
  "To16 a = (if length a = 4 then v4InV6Prefix @ a
             else if length a = 16 then a
             else [])"

text \<open>\<^verbatim>\<open>net.CIDRMask(ones, bits)\<close>: \<open>bits div 8\<close> bytes whose first \<open>ones\<close> bits are set;
  nil unless \<open>bits\<close> is 32 or 128 and \<open>0 \<le> ones \<le> bits\<close>.\<close>

fun CIDRMask_loop :: "nat \<Rightarrow> nat \<Rightarrow> byte list" where
  "CIDRMask_loop 0 n = []"
| "CIDRMask_loop (Suc l) n =
     (if n \<ge> 8 then 0xff # CIDRMask_loop l (n - 8)
      else NOT (drop_bit n (0xff :: byte)) # CIDRMask_loop l 0)"

definition CIDRMask :: "int \<Rightarrow> int \<Rightarrow> ipmask" where
  "CIDRMask ones bits =
     (if bits \<noteq> 32 \<and> bits \<noteq> 128 then []
      else if ones < 0 \<or> ones > bits then []
      else CIDRMask_loop (nat (bits div 8)) (nat ones))"

section \<open>Reachability classification\<close>

fun isIn :: "string \<Rightarrow> string list \<Rightarrow> bool" where
  "isIn target [] = False"
| "isIn target (x # l) = (if target = x then True else isIn target l)"

definition isPublic :: "node_id \<Rightarrow> bool" where
  "isPublic nodeID \<longleftrightarrow>
     ReachabilityV6 nodeID = ReachabilityV6Public \<or> ReachabilityV4 nodeID = ReachabilityV4Public"

definition isHidden :: "node_id \<Rightarrow> bool" where
  "isHidden nodeID \<longleftrightarrow>
     ReachabilityV6 nodeID = ReachabilityV6ULA \<or> ReachabilityV4 nodeID = ReachabilityV4Hidden"

fun publicPrefixes_loop :: "lib \<Rightarrow> net_resource list \<Rightarrow> string list \<Rightarrow> string list" where
  "publicPrefixes_loop L [] output = output"
| "publicPrefixes_loop L (res # rest) output =
     (if isPublic (NodeID res)
      then publicPrefixes_loop L rest (output @ [IPNet_String L (Prefix res)])
      else publicPrefixes_loop L rest output)"

definition publicPrefixes :: "lib \<Rightarrow> net_resource list \<Rightarrow> string list" where
  "publicPrefixes L resources = publicPrefixes_loop L resources []"

fun hiddenPrefixes_loop :: "lib \<Rightarrow> net_resource list \<Rightarrow> string list \<Rightarrow> string list" where
  "hiddenPrefixes_loop L [] output = output"
| "hiddenPrefixes_loop L (res # rest) output =
     (if isHidden (NodeID res)
      then hiddenPrefixes_loop L rest (output @ [IPNet_String L (Prefix res)])
      else hiddenPrefixes_loop L rest output)"

definition hiddenPrefixes :: "lib \<Rightarrow> net_resource list \<Rightarrow> string list" where
  "hiddenPrefixes L resources = hiddenPrefixes_loop L resources []"

section \<open>Peer lookup and endpoints\<close>

fun getPeer :: "lib \<Rightarrow> string \<Rightarrow> peer list \<Rightarrow> error + peer" where
  "getPeer L prefix [] = Inl (Errorf ''peer not found'')"
| "getPeer L prefix (p # peers) =
     (if IPNet_String L (PeerPrefix p) = prefix then Inr p else getPeer L prefix peers)"

definition endpoint :: "lib \<Rightarrow> peer \<Rightarrow> string" where
  "endpoint L p =
     (if To16 (IP (Connection p)) \<noteq> []
      then ''['' @ IP_String L (IP (Connection p)) @ '']:'' @ fmt_d (unat (Port (Connection p)))
      else IP_String L (IP (Connection p)) @ '':'' @ fmt_d (unat (Port (Connection p))))"

section \<open>Planning strategies\<close>

text \<open>
  The allowed-IPs list and the route that the three loop-based strategies build for a
  peer. \<^verbatim>\<open>fmt.Sprintf\<close> is written out as concatenation.
\<close>

definition peerAllowedIPs :: "lib \<Rightarrow> peer \<Rightarrow> nibble \<Rightarrow> byte \<Rightarrow> byte \<Rightarrow> string list" where
  "peerAllowedIPs L p nb a b =
     [''fe80::'' @ Hex nb @ ''/128'',
      ''172.16.'' @ fmt_d (unat a) @ ''.'' @ fmt_d (unat b) @ ''/32'',
      IPNet_String L (PeerPrefix p)]"

definition peerRoute :: "lib \<Rightarrow> peer \<Rightarrow> nibble \<Rightarrow> route" where
  "peerRoute L p nb =
     \<lparr>LinkIndex = 0, Dst = PeerPrefix p, Gw = ParseIP L (''fe80::'' @ Hex nb)\<rparr>"

text \<open>The planning loop of \<^verbatim>\<open>configureExitNetNR\<close> (the part before the namespace is
  entered).\<close>

fun configureExitNetNR_loop ::
  "lib \<Rightarrow> net_resource \<Rightarrow> network \<Rightarrow> string list \<Rightarrow> peer list \<Rightarrow>
   wg_peer list \<Rightarrow> route list \<Rightarrow> error + (wg_peer list \<times> route list)" where
  "configureExitNetNR_loop L localResource nw hidden [] peers routes = Inr (peers, routes)"
| "configureExitNetNR_loop L localResource nw hidden (p # rest) peers routes =
     (if PeerType p \<noteq> ConnTypeWireguard
      then configureExitNetNR_loop L localResource nw hidden rest peers routes
      else if IPNet_String L (PeerPrefix p) = IPNet_String L (Prefix localResource)
      then configureExitNetNR_loop L localResource nw hidden rest peers routes
      else if \<not> isIn (IPNet_String L (PeerPrefix p)) hidden
      then configureExitNetNR_loop L localResource nw hidden rest peers routes
      else
        let nb = NewNibble L (PeerPrefix p) (AllocationNR nw) in
        case ToV4 nb of
          Inl err \<Rightarrow> Inl err
        | Inr (a, b) \<Rightarrow>
            configureExitNetNR_loop L localResource nw hidden rest
              (peers @ [\<lparr>PublicKey = Key (Connection p), Endpoint = [],
                         AllowedIPs = peerAllowedIPs L p nb a b\<rparr>])
              (routes @ [peerRoute L p nb]))"

definition configureExitNetNR_plan ::
  "lib \<Rightarrow> net_resource \<Rightarrow> network \<Rightarrow> error + (wg_peer list \<times> route list)" where
  "configureExitNetNR_plan L localResource nw =
     configureExitNetNR_loop L localResource nw (hiddenPrefixes L (Resources nw))
       (Peers localResource) [] []"

fun prepareHidden_loop ::
  "lib \<Rightarrow> net_resource \<Rightarrow> network \<Rightarrow> string list \<Rightarrow> peer list \<Rightarrow>
   wg_peer list \<Rightarrow> route list \<Rightarrow> error + (wg_peer list \<times> route list)" where
  "prepareHidden_loop L localResource nw public [] peers routes = Inr (peers, routes)"
| "prepareHidden_loop L localResource nw public (p # rest) peers routes =
     (if PeerType p \<noteq> ConnTypeWireguard
      then prepareHidden_loop L localResource nw public rest peers routes
      else if IPNet_String L (PeerPrefix p) = IPNet_String L (Prefix localResource)
      then prepareHidden_loop L localResource nw public rest peers routes
      else
        let nb = NewNibble L (PeerPrefix p) (AllocationNR nw) in
        case ToV4 nb of
          Inl err \<Rightarrow> Inl err
        | Inr (a, b) \<Rightarrow>
            if isIn (IPNet_String L (PeerPrefix p)) public
            then prepareHidden_loop L localResource nw public rest
                   (peers @ [\<lparr>PublicKey = Key (Connection p), Endpoint = endpoint L p,
                              AllowedIPs = peerAllowedIPs L p nb a b\<rparr>])
                   (routes @ [peerRoute L p nb])
            else prepareHidden_loop L localResource nw public rest peers routes)"

definition prepareHidden ::
  "lib \<Rightarrow> net_resource \<Rightarrow> network \<Rightarrow> error + (wg_peer list \<times> route list)" where
  "prepareHidden L localResource nw =
     prepareHidden_loop L localResource nw (publicPrefixes L (Resources nw))
       (Peers localResource) [] []"

fun preparePublic_loop ::
  "lib \<Rightarrow> net_resource \<Rightarrow> network \<Rightarrow> string list \<Rightarrow> peer list \<Rightarrow>
   wg_peer list \<Rightarrow> route list \<Rightarrow> error + (wg_peer list \<times> route list)" where
  "preparePublic_loop L localResource nw public [] peers routes = Inr (peers, routes)"
| "preparePublic_loop L localResource nw public (p # rest) peers routes =
     (if PeerType p \<noteq> ConnTypeWireguard
      then preparePublic_loop L localResource nw public rest peers routes
      else if IPNet_String L (PeerPrefix p) = IPNet_String L (Prefix localResource)
      then preparePublic_loop L localResource nw public rest peers routes
      else
        let nb = NewNibble L (PeerPrefix p) (AllocationNR nw) in
        case ToV4 nb of
          Inl err \<Rightarrow> Inl err
        | Inr (a, b) \<Rightarrow>
            let wgPeer = \<lparr>PublicKey = Key (Connection p), Endpoint = [],
                           AllowedIPs = peerAllowedIPs L p nb a b\<rparr>;
                wgPeer = (if isIn (IPNet_String L (PeerPrefix p)) public
                          then wgPeer\<lparr>Endpoint := endpoint L p\<rparr> else wgPeer);
                peers = peers @ [wgPeer]
            in if IPNet_String L (PeerPrefix p) = IPNet_String L (Prefix (Exit nw))
               then preparePublic_loop L localResource nw public rest peers routes
               else preparePublic_loop L localResource nw public rest peers
                      (routes @ [peerRoute L p nb]))"

definition preparePublic ::
  "lib \<Rightarrow> net_resource \<Rightarrow> network \<Rightarrow> error + (wg_peer list \<times> route list)" where
  "preparePublic L localResource nw =
     preparePublic_loop L localResource nw (publicPrefixes L (Resources nw))
       (Peers localResource) [] []"

definition prepareNonExitNode ::
  "lib \<Rightarrow> net_resource \<Rightarrow> network \<Rightarrow> error + (wg_peer list \<times> route list)" where
  "prepareNonExitNode L localResource nw =
     (case getPeer L (IPNet_String L (Prefix (Exit nw))) (Peers localResource) of
        Inl err \<Rightarrow> Inl err
      | Inr exitPeer \<Rightarrow>
          let peers = [\<lparr>PublicKey = Key (Connection exitPeer), Endpoint = endpoint L exitPeer,
                         AllowedIPs = [''0.0.0.0/0'', ''::/0'']\<rparr>];
              nb = NewNibble L (PeerPrefix exitPeer) (AllocationNR nw)
          in if IPNet_String L (Prefix localResource) \<noteq> IPNet_String L (Prefix (Exit nw))
             then
               let routes = [\<lparr>LinkIndex = 0,
                               Dst = \<lparr>net_IP = ParseIP L ''::'', net_Mask = CIDRMask 64 128\<rparr>,
                               Gw = ParseIP L (''fe80::'' @ Hex nb)\<rparr>]
               in case ToV4 nb of
                    Inl err \<Rightarrow> Inl err
                  | Inr (a, b) \<Rightarrow>
                      let gw = ParseIP L (''172.16.'' @ fmt_d (unat a) @ ''.'' @ fmt_d (unat b));
                          routes = routes @
                            [\<lparr>LinkIndex = 0,
                              Dst = \<lparr>net_IP = ParseIP L (''10.'' @ fmt_d (unat a) @ ''.''
                                                          @ fmt_d (unat b) @ ''.0''),
                                     net_Mask = CIDRMask 24 32\<rparr>,
                              Gw = gw\<rparr>];
                          routes = routes @
                            [\<lparr>LinkIndex = 0,
                              Dst = \<lparr>net_IP = ParseIP L ''0.0.0.0'', net_Mask = CIDRMask 0 32\<rparr>,
                              Gw = gw\<rparr>]
                      in Inr (peers, routes)
             else Inr (peers, []))"

text \<open>The peers of the local resource that the planning loops do not skip: those with the
  WireGuard connection type and a prefix other than the local one.\<close>

definition includedPeers :: "lib \<Rightarrow> net_resource \<Rightarrow> peer list" where
  "includedPeers L localResource =
     filter (\<lambda>p. PeerType p = ConnTypeWireguard
                 \<and> IPNet_String L (PeerPrefix p) \<noteq> IPNet_String L (Prefix localResource))
       (Peers localResource)"

section \<open>A concrete network\<close>

text \<open>
  The network of the specification's scenario: resource A (Public, \<^verbatim>\<open>2001:db8:1::/64\<close>),
  resource B (Hidden, \<^verbatim>\<open>2001:db8:2::/64\<close>), Exit = A; and a resource C
  (\<^verbatim>\<open>2001:db8:3::/64\<close>) whose node is public over IPv6 and hidden over IPv4.
  \<open>lib0\<close> gives the library functions on the values that occur here: it renders the three
  prefixes, the link-local networks and the address of A as Go does, and parses the addresses the planner builds.
\<close>

definition prefixA :: ipnet where
  "prefixA = \<lparr>net_IP = [0x20, 0x01, 0x0d, 0xb8, 0, 1, 0, 0, 0, 0, 0, 0, 0, 0, 0, 0],
              net_Mask = CIDRMask 64 128\<rparr>"

definition prefixB :: ipnet where
  "prefixB = \<lparr>net_IP = [0x20, 0x01, 0x0d, 0xb8, 0, 2, 0, 0, 0, 0, 0, 0, 0, 0, 0, 0],
              net_Mask = CIDRMask 64 128\<rparr>"

definition prefixC :: ipnet where
  "prefixC = \<lparr>net_IP = [0x20, 0x01, 0x0d, 0xb8, 0, 3, 0, 0, 0, 0, 0, 0, 0, 0, 0, 0],
              net_Mask = CIDRMask 64 128\<rparr>"

definition addrA :: ip where
  "addrA = [185, 69, 166, 121]"

definition linkLocal :: "byte \<Rightarrow> ipnet" where
  "linkLocal n = \<lparr>net_IP = [0xfe, 0x80, 0, 0, 0, 0, 0, 0, 0, 0, 0, 0, 0, 0, 0, n],
                  net_Mask = CIDRMask 64 128\<rparr>"

definition IPNet_String0 :: "ipnet \<Rightarrow> string" where
  "IPNet_String0 n =
     (if n = prefixA then ''2001:db8:1::/64''
      else if n = prefixB then ''2001:db8:2::/64''
      else if n = prefixC then ''2001:db8:3::/64''
      else if n = linkLocal 1 then ''fe80::1/64''
      else if n = linkLocal 2 then ''fe80::2/64''
      else if n = linkLocal 3 then ''fe80::3/64''
      else ''<nil>'')"

definition IP_String0 :: "ip \<Rightarrow> string" where
  "IP_String0 a = (if a = addrA then ''185.69.166.121'' else ''<nil>'')"

definition ParseIP0 :: "string \<Rightarrow> ip" where
  "ParseIP0 s =
     (if s = ''::'' then [0, 0, 0, 0, 0, 0, 0, 0, 0, 0, 0, 0, 0, 0, 0, 0]
      else if s = ''fe80::1'' then [0xfe, 0x80, 0, 0, 0, 0, 0, 0, 0, 0, 0, 0, 0, 0, 0, 1]
      else if s = ''fe80::2'' then [0xfe, 0x80, 0, 0, 0, 0, 0, 0, 0, 0, 0, 0, 0, 0, 0, 2]
      else if s = ''fe80::3'' then [0xfe, 0x80, 0, 0, 0, 0, 0, 0, 0, 0, 0, 0, 0, 0, 0, 3]
      else if s = ''172.16.0.1'' then v4InV6Prefix @ [172, 16, 0, 1]
      else if s = ''10.0.1.0'' then v4InV6Prefix @ [10, 0, 1, 0]
      else if s = ''0.0.0.0'' then v4InV6Prefix @ [0, 0, 0, 0]
      else [])"

definition NewNibble0 :: "ipnet \<Rightarrow> int \<Rightarrow> nibble" where
  "NewNibble0 n allocNr =
     (if n = prefixA
      then \<lparr>Hex = ''1'', ToV4 = Inr (0, 1), NetworkName = ''net-1'', WiregardName = ''wg-1''\<rparr>
      else if n = prefixB
      then \<lparr>Hex = ''2'', ToV4 = Inr (0, 2), NetworkName = ''net-2'', WiregardName = ''wg-2''\<rparr>
      else \<lparr>Hex = ''3'', ToV4 = Inr (0, 3), NetworkName = ''net-3'', WiregardName = ''wg-3''\<rparr>)"

definition lib0 :: lib where
  "lib0 = \<lparr>IPNet_String = IPNet_String0, IP_String = IP_String0, ParseIP = ParseIP0,
           NewNibble = NewNibble0, filepath_Join = (\<lambda>dir name. dir @ ''/'' @ name)\<rparr>"

definition nodeA :: node_id where
  "nodeA = \<lparr>ID = ''A'', ReachabilityV4 = ReachabilityV4Public,
            ReachabilityV6 = ReachabilityV6Unknown\<rparr>"

definition nodeB :: node_id where
  "nodeB = \<lparr>ID = ''B'', ReachabilityV4 = ReachabilityV4Hidden,
            ReachabilityV6 = ReachabilityV6Unknown\<rparr>"

definition nodeC :: node_id where
  "nodeC = \<lparr>ID = ''C'', ReachabilityV4 = ReachabilityV4Hidden,
            ReachabilityV6 = ReachabilityV6Public\<rparr>"

definition peerA :: peer where
  "peerA = \<lparr>PeerType = ConnTypeWireguard, PeerPrefix = prefixA,
            Connection = \<lparr>IP = addrA, Port = 51820, Key = ''keyA''\<rparr>\<rparr>"

definition peerB :: peer where
  "peerB = \<lparr>PeerType = ConnTypeWireguard, PeerPrefix = prefixB,
            Connection = \<lparr>IP = [], Port = 0, Key = ''keyB''\<rparr>\<rparr>"

text \<open>The entry for A with a connection type that is not WireGuard.\<close>

definition peerA_other :: peer where
  "peerA_other = peerA\<lparr>PeerType := ConnTypeOther\<rparr>"

definition resA :: "peer list \<Rightarrow> net_resource" where
  "resA ps = \<lparr>NodeID = nodeA, Prefix = prefixA, LinkLocal = linkLocal 1, Peers = ps\<rparr>"

definition resB :: "peer list \<Rightarrow> net_resource" where
  "resB ps = \<lparr>NodeID = nodeB, Prefix = prefixB, LinkLocal = linkLocal 2, Peers = ps\<rparr>"

definition resC :: "peer list \<Rightarrow> net_resource" where
  "resC ps = \<lparr>NodeID = nodeC, Prefix = prefixC, LinkLocal = linkLocal 3, Peers = ps\<rparr>"

definition net0 :: network where
  "net0 = \<lparr>Resources = [resA [peerB], resB [peerA]], Exit = resA [peerB], AllocationNR = 0\<rparr>"

text \<open>The entry of C, and the network of A, B and C with Exit = A.\<close>

definition peerC :: peer where
  "peerC = \<lparr>PeerType = ConnTypeWireguard, PeerPrefix = prefixC,
            Connection = \<lparr>IP = [], Port = 0, Key = ''keyC''\<rparr>\<rparr>"

definition net1 :: network where
  "net1 = \<lparr>Resources = [resA [peerB, peerC], resB [peerA], resC [peerA, peerB, peerC]],
           Exit = resA [peerB, peerC], AllocationNR = 0\<rparr>"

section \<open>Applying a plan\<close>

text \<open>
  The handle of a WireGuard link: its name and the kernel index \<^verbatim>\<open>wg.Attrs().Index\<close>.
\<close>

record wg_link =
  wg_Name :: string
  wg_Index :: int

text \<open>
  The operations on the host that \<open>configWG\<close> calls (packages \<^verbatim>\<open>namespace\<close>, \<^verbatim>\<open>wireguard\<close>
  and \<^verbatim>\<open>netlink\<close>), whose code is not among the sources. Each takes the state of the host
  and returns its result with the new state; they are parameters of the model. A
  namespace handle is the name it was opened with. \<open>netns_enter\<close> and \<open>netns_leave\<close> are
  the two halves of \<^verbatim>\<open>netns.Do\<close>: switching to the namespace, which can fail, and
  switching back.
\<close>

record 's host =
  namespace_GetByName :: "string \<Rightarrow> 's \<Rightarrow> (error + string) \<times> 's"
  netns_Close :: "string \<Rightarrow> 's \<Rightarrow> 's"
  netns_enter :: "string \<Rightarrow> 's \<Rightarrow> error option \<times> 's"
  netns_leave :: "string \<Rightarrow> 's \<Rightarrow> 's"
  wireguard_LoadKey :: "string \<Rightarrow> 's \<Rightarrow> (error + string) \<times> 's"
  wireguard_GenerateKey :: "string \<Rightarrow> 's \<Rightarrow> (error + string) \<times> 's"
  wireguard_GetByName :: "string \<Rightarrow> 's \<Rightarrow> (error + wg_link) \<times> 's"
  wg_SetAddr :: "wg_link \<Rightarrow> string \<Rightarrow> 's \<Rightarrow> error option \<times> 's"
  wg_Configure :: "wg_link \<Rightarrow> string \<Rightarrow> wg_peer list \<Rightarrow> 's \<Rightarrow> error option \<times> 's"
  netlink_RouteAdd :: "route \<Rightarrow> 's \<Rightarrow> error option \<times> 's"

text \<open>The loop over the routes at the end of the handler of \<open>configWG\<close>.\<close>

fun addRoutes :: "'s host \<Rightarrow> wg_link \<Rightarrow> route list \<Rightarrow> 's \<Rightarrow> error option \<times> 's" where
  "addRoutes H wg [] s = (None, s)"
| "addRoutes H wg (r # routes) s =
     (case netlink_RouteAdd H (r\<lparr>LinkIndex := wg_Index wg\<rparr>) s of
        (Some err, s') \<Rightarrow> (Some err, s')
      | (None, s') \<Rightarrow> addRoutes H wg routes s')"

definition configWG_handler ::
  "lib \<Rightarrow> 's host \<Rightarrow> net_resource \<Rightarrow> nibble \<Rightarrow> string \<Rightarrow> wg_peer list \<Rightarrow> route list \<Rightarrow>
   's \<Rightarrow> error option \<times> 's" where
  "configWG_handler L H localResource localNibble key wgPeers routes s =
     (case wireguard_GetByName H (WiregardName localNibble) s of
        (Inl err, s1) \<Rightarrow> (Some err, s1)
      | (Inr wg, s1) \<Rightarrow>
          (case wg_SetAddr H wg (IPNet_String L (LinkLocal localResource)) s1 of
             (Some err, s2) \<Rightarrow> (Some err, s2)
           | (None, s2) \<Rightarrow>
               (case ToV4 localNibble of
                  Inl err \<Rightarrow> (Some err, s2)
                | Inr (a, b) \<Rightarrow>
                    (case wg_SetAddr H wg
                            (''172.16.'' @ fmt_d (unat a) @ ''.'' @ fmt_d (unat b) @ ''/16'') s2 of
                       (Some err, s3) \<Rightarrow> (Some err, s3)
                     | (None, s3) \<Rightarrow>
                         (case wg_Configure H wg key wgPeers s3 of
                            (Some err, s4) \<Rightarrow> (Some err, s4)
                          | (None, s4) \<Rightarrow> addRoutes H wg routes s4)))))"

text \<open>\<^verbatim>\<open>netns.Do(handler)\<close>: the handler runs inside the namespace and its error is the
  result; the previous namespace is restored afterwards.\<close>

definition netns_Do ::
  "'s host \<Rightarrow> string \<Rightarrow> ('s \<Rightarrow> error option \<times> 's) \<Rightarrow> 's \<Rightarrow> error option \<times> 's" where
  "netns_Do H netns handler s =
     (case netns_enter H netns s of
        (Some err, s1) \<Rightarrow> (Some err, s1)
      | (None, s1) \<Rightarrow> (case handler s1 of (res, s2) \<Rightarrow> (res, netns_leave H netns s2)))"

text \<open>\<open>configWG\<close>. The deferred \<^verbatim>\<open>netns.Close()\<close> runs on every return after the namespace
  was opened.\<close>

definition configWG ::
  "lib \<Rightarrow> 's host \<Rightarrow> net_resource \<Rightarrow> network \<Rightarrow> wg_peer list \<Rightarrow> route list \<Rightarrow> string \<Rightarrow>
   's \<Rightarrow> error option \<times> 's" where
  "configWG L H localResource nw wgPeers routes storageDir s =
     (let localNibble = NewNibble L (Prefix localResource) (AllocationNR nw) in
      case namespace_GetByName H (NetworkName localNibble) s of
        (Inl err, s1) \<Rightarrow> (Some err, s1)
      | (Inr netns, s1) \<Rightarrow>
          let storagePath = filepath_Join L storageDir (Hex localNibble) in
          case (case wireguard_LoadKey H storagePath s1 of
                  (Inr key, s2) \<Rightarrow> (Inr key, s2)
                | (Inl err, s2) \<Rightarrow> wireguard_GenerateKey H storagePath s2) of
            (Inl err, s3) \<Rightarrow> (Some err, netns_Close H netns s3)
          | (Inr key, s3) \<Rightarrow>
              (case netns_Do H netns
                      (configWG_handler L H localResource localNibble key wgPeers routes) s3 of
                 (res, s4) \<Rightarrow> (res, netns_Close H netns s4)))"

text \<open>\<open>configureExitNetNR\<close>: the planning loop, then the same steps as \<open>configWG\<close> (the
  source repeats them line by line).\<close>

definition configureExitNetNR ::
  "lib \<Rightarrow> 's host \<Rightarrow> net_resource \<Rightarrow> network \<Rightarrow> string \<Rightarrow> 's \<Rightarrow> error option \<times> 's" where
  "configureExitNetNR L H localResource nw storageDir s =
     (case configureExitNetNR_plan L localResource nw of
        Inl err \<Rightarrow> (Some err, s)
      | Inr (peers, routes) \<Rightarrow> configWG L H localResource nw peers routes storageDir s)"








section \<open>Storage allocation for 0-db namespaces\<close>

text \<open>\<^verbatim>\<open>Allocation\<close> and \<^verbatim>\<open>zdbNamespace\<close> of \<^verbatim>\<open>zdb.go\<close>; device types and modes are strings.\<close>

record Allocation =
  VolumeID :: string
  VolumePath :: string

record zdbNamespace =
  zdb_ID :: string
  zdb_Size :: "64 word"
  zdb_Mode :: string

text \<open>
  A \<^verbatim>\<open>filesystem.Volume\<close> and a \<^verbatim>\<open>filesystem.Pool\<close> are used through their read-only
  methods, so each is the record of what these return: \<^verbatim>\<open>Name()\<close> and \<^verbatim>\<open>Path()\<close> of a
  volume; \<^verbatim>\<open>Name()\<close>, \<^verbatim>\<open>Type()\<close>, \<^verbatim>\<open>Usage()\<close> (of which the code reads \<^verbatim>\<open>Size\<close>) and
  \<^verbatim>\<open>Volumes()\<close> of a pool.
\<close>

record volume =
  vol_Name :: string
  vol_Path :: string

record pool =
  pool_Name :: string
  pool_Type :: string
  pool_Usage :: "error + 64 word"
  pool_Volumes :: "error + volume list"

record Candidate =
  cand_Volume :: volume
  Free :: "64 word"

text \<open>
  The file system and the other functions \<^verbatim>\<open>zdb.go\<close> calls whose code is not among the
  sources: parameters of the model. Reading gives a result, writing gives an error or
  none; \<open>json_Decode\<close> gives the decoded value together with the error of the decoder.
\<close>

record fsys =
  path_Join :: "string list \<Rightarrow> string"
  os_Open :: "string \<Rightarrow> error + string"
  json_Decode :: "string \<Rightarrow> zdbNamespace \<times> error option"
  ioutil_ReadDir :: "string \<Rightarrow> error + (string \<times> bool) list"
  os_MkdirAll :: "string \<Rightarrow> error option"
  os_Create :: "string \<Rightarrow> error option"
  json_Encode :: "string \<Rightarrow> zdbNamespace \<Rightarrow> error option"
  uuid_NewRandom :: "error + string"
  createSubvol :: "64 word \<Rightarrow> string \<Rightarrow> string \<Rightarrow> error + volume"

text \<open>The verb \<^verbatim>\<open>'%s'\<close> of the error messages: the string between single quotes.\<close>

definition quoted :: "string \<Rightarrow> string" where
  "quoted s = [CHR 0x27] @ s @ [CHR 0x27]"

definition os_IsNotExist :: "error option \<Rightarrow> bool" where
  "os_IsNotExist err = (case err of Some (NotExist m) \<Rightarrow> True | _ \<Rightarrow> False)"

definition zdbPoolPrefix :: string where
  "zdbPoolPrefix = ''zdb''"

definition isZdbVolume :: "volume \<Rightarrow> bool" where
  "isZdbVolume v \<longleftrightarrow> take (length zdbPoolPrefix) (vol_Name v) = zdbPoolPrefix"

fun Total :: "zdbNamespace list \<Rightarrow> 64 word" where
  "Total [] = 0"
| "Total (n # s) = zdb_Size n + Total s"

definition zdbNamespace_zero :: zdbNamespace where
  "zdbNamespace_zero = \<lparr>zdb_ID = [], zdb_Size = 0, zdb_Mode = []\<rparr>"

definition Allocation_zero :: Allocation where
  "Allocation_zero = \<lparr>VolumeID = [], VolumePath = []\<rparr>"

definition CreateNamespace :: "fsys \<Rightarrow> volume \<Rightarrow> string \<Rightarrow> zdbNamespace \<Rightarrow> error option" where
  "CreateNamespace F v ns info =
     (let dir = path_Join F [vol_Path v, ns] in
      case os_MkdirAll F dir of
        Some err \<Rightarrow> Some err
      | None \<Rightarrow>
          (case os_Create F (path_Join F [dir, ''.info'']) of
             Some err \<Rightarrow> Some err
           | None \<Rightarrow> json_Encode F (path_Join F [dir, ''.info'']) info))"

definition GetNamespace :: "fsys \<Rightarrow> volume \<Rightarrow> string \<Rightarrow> zdbNamespace \<times> error option" where
  "GetNamespace F v ns =
     (let infoPath = path_Join F [vol_Path v, ns, ''.info''] in
      case os_Open F infoPath of
        Inl err \<Rightarrow> (zdbNamespace_zero, Some err)
      | Inr infoFile \<Rightarrow>
          (case json_Decode F infoFile of (info, err) \<Rightarrow> (info\<lparr>zdb_ID := ns\<rparr>, err)))"

fun ListNamespaces_loop ::
  "fsys \<Rightarrow> volume \<Rightarrow> (string \<times> bool) list \<Rightarrow> zdbNamespace list \<Rightarrow> error + zdbNamespace list" where
  "ListNamespaces_loop F v [] namespaces = Inr namespaces"
| "ListNamespaces_loop F v ((name, isDir) # dirs) namespaces =
     (if \<not> isDir then ListNamespaces_loop F v dirs namespaces
      else case GetNamespace F v name of
        (info, err) \<Rightarrow>
          if os_IsNotExist err then ListNamespaces_loop F v dirs namespaces
          else (case err of
                  Some e \<Rightarrow> Inl e
                | None \<Rightarrow> ListNamespaces_loop F v dirs (namespaces @ [info])))"

definition ListNamespaces :: "fsys \<Rightarrow> volume \<Rightarrow> error + zdbNamespace list" where
  "ListNamespaces F v =
     (case ioutil_ReadDir F (vol_Path v) of
        Inl err \<Rightarrow> Inl err
      | Inr dirs \<Rightarrow> ListNamespaces_loop F v dirs [])"

definition genZDBPoolName :: "fsys \<Rightarrow> error + string" where
  "genZDBPoolName F =
     (case uuid_NewRandom F of Inl err \<Rightarrow> Inl err | Inr uid \<Rightarrow> Inr (zdbPoolPrefix @ uid))"

text \<open>
  The first pair of loops of \<open>Allocate2\<close>, which looks for a volume that already holds
  the namespace. \<open>Some\<close> is a \<^verbatim>\<open>return\<close> from inside the loop, with the pair the function
  returns; \<open>None\<close> means the loop ran to its end.
\<close>

fun Allocate2_find_volumes ::
  "fsys \<Rightarrow> string \<Rightarrow> volume list \<Rightarrow> (Allocation \<times> error option) option" where
  "Allocate2_find_volumes F nsID [] = None"
| "Allocate2_find_volumes F nsID (v # volumes) =
     (if \<not> isZdbVolume v then Allocate2_find_volumes F nsID volumes
      else case GetNamespace F v nsID of
        (info, err) \<Rightarrow>
          if os_IsNotExist err then Allocate2_find_volumes F nsID volumes
          else (case err of
                  Some e \<Rightarrow>
                    Some (Allocation_zero,
                          Some (Wrap e (''failed to get namespace info on volume '' @ quoted (vol_Path v))))
                | None \<Rightarrow>
                    Some (\<lparr>VolumeID = vol_Name v, VolumePath = vol_Path v\<rparr>, None)))"

fun Allocate2_find_pools ::
  "fsys \<Rightarrow> string \<Rightarrow> string \<Rightarrow> pool list \<Rightarrow> (Allocation \<times> error option) option" where
  "Allocate2_find_pools F nsID diskType [] = None"
| "Allocate2_find_pools F nsID diskType (p # pools) =
     (if pool_Type p \<noteq> diskType then Allocate2_find_pools F nsID diskType pools
      else case pool_Volumes p of
        Inl err \<Rightarrow>
          Some (Allocation_zero,
                Some (Wrap err (''failed to list volume on pool '' @ pool_Name p)))
      | Inr volumes \<Rightarrow>
          (case Allocate2_find_volumes F nsID volumes of
             Some ret \<Rightarrow> Some ret
           | None \<Rightarrow> Allocate2_find_pools F nsID diskType pools))"

text \<open>
  The second pair of loops, which collects candidates. \<open>Inl\<close> is a \<^verbatim>\<open>return\<close> from inside
  the loop; \<open>Inr\<close> is the list of candidates when the loop ran to its end. The result
  variable \<^verbatim>\<open>allocation\<close> is assigned only in the first pair of loops, right before
  returning, so here it has its zero value. The \<^verbatim>\<open>return allocation, nil\<close> that follows
  the \<^verbatim>\<open>append\<close> is the last statement of the inner loop's body.
\<close>

fun Allocate2_candidates_volumes ::
  "fsys \<Rightarrow> 64 word \<Rightarrow> 64 word \<Rightarrow> volume list \<Rightarrow> Candidate list \<Rightarrow>
   (Allocation \<times> error option) + Candidate list" where
  "Allocate2_candidates_volumes F sz usageSize [] candidates = Inr candidates"
| "Allocate2_candidates_volumes F sz usageSize (v # volumes) candidates =
     (if \<not> isZdbVolume v then Allocate2_candidates_volumes F sz usageSize volumes candidates
      else case ListNamespaces F v of
        Inl err \<Rightarrow>
          Inl (Allocation_zero,
               Some (Wrap err (''failed to list namespaces from volume '' @ quoted (vol_Path v))))
      | Inr namespaces \<Rightarrow>
          let quota = Total namespaces in
          if quota + sz > usageSize
          then Allocate2_candidates_volumes F sz usageSize volumes candidates
          else
            let candidates = candidates @ [\<lparr>cand_Volume = v, Free = usageSize - (quota + sz)\<rparr>]
            in Inl (Allocation_zero, None))"

fun Allocate2_candidates_pools ::
  "fsys \<Rightarrow> string \<Rightarrow> 64 word \<Rightarrow> pool list \<Rightarrow> Candidate list \<Rightarrow>
   (Allocation \<times> error option) + Candidate list" where
  "Allocate2_candidates_pools F diskType sz [] candidates = Inr candidates"
| "Allocate2_candidates_pools F diskType sz (p # pools) candidates =
     (if pool_Type p \<noteq> diskType then Allocate2_candidates_pools F diskType sz pools candidates
      else case pool_Usage p of
        Inl err \<Rightarrow>
          Inl (Allocation_zero,
               Some (Wrap err (''failed to read usage of pool '' @ pool_Name p)))
      | Inr usageSize \<Rightarrow>
          (case pool_Volumes p of
             Inl err \<Rightarrow>
               Inl (Allocation_zero,
                    Some (Wrap err (''failed to list volume on pool '' @ pool_Name p)))
           | Inr volumes \<Rightarrow>
               (case Allocate2_candidates_volumes F sz usageSize volumes candidates of
                  Inl ret \<Rightarrow> Inl ret
                | Inr candidates \<Rightarrow>
                    Allocate2_candidates_pools F diskType sz pools candidates)))"

text \<open>\<^verbatim>\<open>sort.Slice\<close> with \<^verbatim>\<open>candidates[i].Free > candidates[j].Free\<close>: descending free
  space. The order \<^verbatim>\<open>sort.Slice\<close> gives to candidates with equal free space is not fixed;
  this is one of the orders it can give.\<close>

definition sortByFree :: "Candidate list \<Rightarrow> Candidate list" where
  "sortByFree candidates = rev (sort_key Free candidates)"

definition Allocate2 ::
  "fsys \<Rightarrow> pool list \<Rightarrow> string \<Rightarrow> string \<Rightarrow> 64 word \<Rightarrow> string \<Rightarrow> Allocation \<times> error option" where
  "Allocate2 F pools nsID diskType sz mode =
     (case Allocate2_find_pools F nsID diskType pools of
        Some ret \<Rightarrow> ret
      | None \<Rightarrow>
          (case Allocate2_candidates_pools F diskType sz pools [] of
             Inl ret \<Rightarrow> ret
           | Inr candidates \<Rightarrow>
               (case (if length candidates > 0
                      then Inr (cand_Volume (hd (sortByFree candidates)))
                      else (case genZDBPoolName F of
                              Inl err \<Rightarrow>
                                Inl (Allocation_zero,
                                     Some (Wrap err ''failed to generate new sub-volume name''))
                            | Inr name \<Rightarrow>
                                (case createSubvol F sz name diskType of
                                   Inl err \<Rightarrow>
                                     Inl (Allocation_zero,
                                          Some (Wrap err ''failed to create sub-volume''))
                                 | Inr vol \<Rightarrow> Inr vol))) of
                  Inl ret \<Rightarrow> ret
                | Inr vol \<Rightarrow>
                    (case CreateNamespace F vol nsID
                            \<lparr>zdb_ID = [], zdb_Size = sz, zdb_Mode = mode\<rparr> of
                       Some err \<Rightarrow>
                         (Allocation_zero,
                          Some (Wrap err (''failed to create namespace directory: ''
                                            @ quoted (vol_Path vol @ ''/'' @ nsID))))
                     | None \<Rightarrow>
                         (\<lparr>VolumeID = vol_Name vol, VolumePath = vol_Path vol\<rparr>, None)))))"

text \<open>
  What the candidate search does with a volume and with a pool, in the words of the
  claim. The search moves past a volume (\<open>volumePassed\<close>) when it is not a zdb volume, or
  when its namespaces can be listed and it has not enough space for the request; it
  moves past a pool (\<open>poolPassed\<close>) of another disk type, or one whose usage and volumes
  can be read and all of whose volumes it moves past. A volume fits (\<open>volumeFits\<close>) when
  it is a zdb volume, its namespaces can be listed and the request has room.
\<close>

definition volumePassed :: "fsys \<Rightarrow> 64 word \<Rightarrow> 64 word \<Rightarrow> volume \<Rightarrow> bool" where
  "volumePassed F sz usageSize v \<longleftrightarrow>
     (if isZdbVolume v
      then (case ListNamespaces F v of
              Inl err \<Rightarrow> False
            | Inr namespaces \<Rightarrow> Total namespaces + sz > usageSize)
      else True)"

definition volumeFits :: "fsys \<Rightarrow> 64 word \<Rightarrow> 64 word \<Rightarrow> volume \<Rightarrow> bool" where
  "volumeFits F sz usageSize v \<longleftrightarrow>
     isZdbVolume v \<and>
     (case ListNamespaces F v of
        Inl err \<Rightarrow> False
      | Inr namespaces \<Rightarrow> Total namespaces + sz \<le> usageSize)"

definition poolPassed :: "fsys \<Rightarrow> string \<Rightarrow> 64 word \<Rightarrow> pool \<Rightarrow> bool" where
  "poolPassed F diskType sz p \<longleftrightarrow>
     (if pool_Type p = diskType
      then (case pool_Usage p of
              Inl err \<Rightarrow> False
            | Inr usageSize \<Rightarrow>
                (case pool_Volumes p of
                   Inl err \<Rightarrow> False
                 | Inr volumes \<Rightarrow> list_all (volumePassed F sz usageSize) volumes))
      else True)"

text \<open>
  A store for the examples: an HDD pool with no volumes and an SSD pool of size 100 with
  four volumes. \<^verbatim>\<open>data\<close> is not a zdb volume, \<^verbatim>\<open>zdb0\<close> holds a namespace of size 100,
  \<^verbatim>\<open>zdb1\<close> one of size 90, and \<^verbatim>\<open>zdb2\<close> is empty. No volume holds a namespace \<^verbatim>\<open>ns1\<close>.
\<close>

fun path_Join0 :: "string list \<Rightarrow> string" where
  "path_Join0 [] = []"
| "path_Join0 [x] = x"
| "path_Join0 (x # xs) = x @ ''/'' @ path_Join0 xs"

definition fs0 :: fsys where
  "fs0 =
     \<lparr>path_Join = path_Join0,
      os_Open = (\<lambda>path.
         if path = ''/mnt/ssd/zdb0/old/.info'' then Inr ''{size:100}''
         else if path = ''/mnt/ssd/zdb1/a/.info'' then Inr ''{size:90}''
         else Inl (NotExist path)),
      json_Decode = (\<lambda>text.
         if text = ''{size:100}''
         then (\<lparr>zdb_ID = [], zdb_Size = 100, zdb_Mode = ''seq''\<rparr>, None)
         else if text = ''{size:90}''
         then (\<lparr>zdb_ID = [], zdb_Size = 90, zdb_Mode = ''seq''\<rparr>, None)
         else (zdbNamespace_zero, Some (Ext ''unexpected end of JSON input''))),
      ioutil_ReadDir = (\<lambda>path.
         if path = ''/mnt/ssd/zdb0'' then Inr [(''old'', True)]
         else if path = ''/mnt/ssd/zdb1'' then Inr [(''a'', True)]
         else if path = ''/mnt/ssd/zdb2'' then Inr []
         else Inl (NotExist path)),
      os_MkdirAll = (\<lambda>path. None),
      os_Create = (\<lambda>path. None),
      json_Encode = (\<lambda>path info. None),
      uuid_NewRandom = Inr ''0000'',
      createSubvol = (\<lambda>sz name diskType.
         Inr \<lparr>vol_Name = name, vol_Path = ''/mnt/ssd/'' @ name\<rparr>)\<rparr>"

definition vol0 :: "string \<Rightarrow> volume" where
  "vol0 name = \<lparr>vol_Name = name, vol_Path = ''/mnt/ssd/'' @ name\<rparr>"

definition poolHDD :: pool where
  "poolHDD = \<lparr>pool_Name = ''hdd'', pool_Type = ''HDD'', pool_Usage = Inr 500,
               pool_Volumes = Inr []\<rparr>"

definition poolSSD :: pool where
  "poolSSD = \<lparr>pool_Name = ''ssd'', pool_Type = ''SSD'', pool_Usage = Inr 100,
               pool_Volumes = Inr [vol0 ''data'', vol0 ''zdb0'', vol0 ''zdb1'', vol0 ''zdb2'']\<rparr>"

section \<open>Properties of the helpers\<close>

lemma fmt_d_small: "n < 10 \<Longrightarrow> fmt_d n = [digit n]"
  by (simp add: fmt_d.simps)

lemma fmt_d_0: "fmt_d 0 = ''0''"
  by (simp add: fmt_d.simps digit_def)

lemma fmt_d_1: "fmt_d 1 = ''1''"
  by (simp add: fmt_d.simps digit_def)

lemma fmt_d_51820: "fmt_d 51820 = ''51820''"
  by (simp add: fmt_d.simps digit_def)

lemma To16_nonnil: "To16 a \<noteq> [] \<longleftrightarrow> length a = 4 \<or> length a = 16"
  by (auto simp: To16_def v4InV6Prefix_def)

section \<open>Endpoints\<close>

text \<open>
  Claim C10. For a peer whose \<^verbatim>\<open>Connection.IP\<close> has 4 or 16 bytes, \<open>endpoint\<close> returns the
  bracketed form \<^verbatim>\<open>[IP]:port\<close> (also for an IPv4 address, whose \<^verbatim>\<open>To16\<close> is not nil);
  the unbracketed form \<^verbatim>\<open>IP:port\<close> is the result exactly when the address is nil or has
  another length.
\<close>

theorem endpoint_format:
  "(length (IP (Connection p)) = 4 \<or> length (IP (Connection p)) = 16 \<longrightarrow>
      endpoint L p = ''['' @ IP_String L (IP (Connection p)) @ '']:''
                       @ fmt_d (unat (Port (Connection p))))
   \<and> (endpoint L p = IP_String L (IP (Connection p)) @ '':''
                       @ fmt_d (unat (Port (Connection p)))
      \<longleftrightarrow> \<not> (length (IP (Connection p)) = 4 \<or> length (IP (Connection p)) = 16))"
proof -
  let ?s = "IP_String L (IP (Connection p))"
  let ?d = "fmt_d (unat (Port (Connection p)))"
  have "length (''['' @ ?s @ '']:'' @ ?d) \<noteq> length (?s @ '':'' @ ?d)"
    by simp
  then have ne: "''['' @ ?s @ '']:'' @ ?d \<noteq> ?s @ '':'' @ ?d"
    by metis
  show ?thesis
    using ne by (simp add: endpoint_def To16_nonnil)
qed

theorem endpoint_format_witness:
  "length (IP (Connection peerA)) = 4 \<and> endpoint lib0 peerA = ''[185.69.166.121]:51820''
   \<and> length (IP (Connection peerB)) = 0 \<and> endpoint lib0 peerB = ''<nil>:0''"
  using endpoint_format [of peerA lib0] endpoint_format [of peerB lib0]
  by (simp add: peerA_def peerB_def lib0_def IP_String0_def addrA_def fmt_d_51820 fmt_d_0)

lemma isIn_set: "isIn t l \<longleftrightarrow> t \<in> set l"
  by (induction l) auto

lemma publicPrefixes_loop_eq:
  "publicPrefixes_loop L rs out =
     out @ map (\<lambda>r. IPNet_String L (Prefix r)) (filter (\<lambda>r. isPublic (NodeID r)) rs)"
  by (induction rs arbitrary: out) auto

lemma hiddenPrefixes_loop_eq:
  "hiddenPrefixes_loop L rs out =
     out @ map (\<lambda>r. IPNet_String L (Prefix r)) (filter (\<lambda>r. isHidden (NodeID r)) rs)"
  by (induction rs arbitrary: out) auto

lemma publicPrefixes_eq:
  "publicPrefixes L rs = map (\<lambda>r. IPNet_String L (Prefix r)) (filter (\<lambda>r. isPublic (NodeID r)) rs)"
  by (simp add: publicPrefixes_def publicPrefixes_loop_eq)

lemma hiddenPrefixes_eq:
  "hiddenPrefixes L rs = map (\<lambda>r. IPNet_String L (Prefix r)) (filter (\<lambda>r. isHidden (NodeID r)) rs)"
  by (simp add: hiddenPrefixes_def hiddenPrefixes_loop_eq)

lemma getPeer_not_found:
  "(\<forall>p \<in> set ps. IPNet_String L (PeerPrefix p) \<noteq> prefix) \<Longrightarrow>
   getPeer L prefix ps = Inl (Errorf ''peer not found'')"
  by (induction ps) auto

lemma prefix_distinct: "prefixA \<noteq> prefixB" "prefixB \<noteq> prefixA" "prefixA \<noteq> prefixC" "prefixC \<noteq> prefixA" "prefixB \<noteq> prefixC" "prefixC \<noteq> prefixB"
  by (simp_all add: prefixA_def prefixB_def prefixC_def)

lemma IPNet_String0_simps:
  "IPNet_String0 prefixA = ''2001:db8:1::/64''"
  "IPNet_String0 prefixB = ''2001:db8:2::/64''"
  "IPNet_String0 prefixC = ''2001:db8:3::/64''"
  by (simp_all add: IPNet_String0_def prefix_distinct)


lemma isIn_publicPrefixes:
  "isIn s (publicPrefixes L rs) \<longleftrightarrow>
     (\<exists>res \<in> set rs. isPublic (NodeID res) \<and> IPNet_String L (Prefix res) = s)"
  by (auto simp: isIn_set publicPrefixes_eq)

lemma isIn_hiddenPrefixes:
  "isIn s (hiddenPrefixes L rs) \<longleftrightarrow>
     (\<exists>res \<in> set rs. isHidden (NodeID res) \<and> IPNet_String L (Prefix res) = s)"
  by (auto simp: isIn_set hiddenPrefixes_eq)

lemma endpoint_nonempty: "endpoint L p \<noteq> []"
  by (simp add: endpoint_def)

section \<open>Evaluation on the concrete network\<close>

lemma fmt_d_2: "fmt_d 2 = ''2''"
  by (simp add: fmt_d.simps digit_def)

lemma fmt_d_Suc0: "fmt_d (Suc 0) = ''1''"
  using fmt_d_1 by simp

lemma NewNibble0_simps:
  "NewNibble0 prefixA n =
     \<lparr>Hex = ''1'', ToV4 = Inr (0, 1), NetworkName = ''net-1'', WiregardName = ''wg-1''\<rparr>"
  "NewNibble0 prefixB n =
     \<lparr>Hex = ''2'', ToV4 = Inr (0, 2), NetworkName = ''net-2'', WiregardName = ''wg-2''\<rparr>"
  "NewNibble0 prefixC n =
     \<lparr>Hex = ''3'', ToV4 = Inr (0, 3), NetworkName = ''net-3'', WiregardName = ''wg-3''\<rparr>"
  by (simp_all add: NewNibble0_def prefix_distinct)

lemma endpoint_peerA: "endpoint lib0 peerA = ''[185.69.166.121]:51820''"
  by (simp add: endpoint_def To16_def peerA_def lib0_def IP_String0_def addrA_def fmt_d_51820)

lemma endpoint_peerA_other: "endpoint lib0 peerA_other = ''[185.69.166.121]:51820''"
  by (simp add: endpoint_def To16_def peerA_other_def peerA_def lib0_def IP_String0_def
      addrA_def fmt_d_51820)

lemma CIDRMask_values:
  "CIDRMask 64 128 = [255, 255, 255, 255, 255, 255, 255, 255, 0, 0, 0, 0, 0, 0, 0, 0]"
  "CIDRMask 0 128 = [0, 0, 0, 0, 0, 0, 0, 0, 0, 0, 0, 0, 0, 0, 0, 0]"
  "CIDRMask 24 32 = [255, 255, 255, 0]"
  "CIDRMask 0 32 = [0, 0, 0, 0]"
  by code_simp+

lemmas concrete_defs =
  resA_def resB_def resC_def nodeA_def nodeB_def nodeC_def net0_def net1_def
  peerA_def peerB_def peerC_def peerA_other_def lib0_def
  isPublic_def isHidden_def publicPrefixes_def hiddenPrefixes_def
  IPNet_String0_simps NewNibble0_simps prefix_distinct
  peerAllowedIPs_def peerRoute_def fmt_d_0 fmt_d_1 fmt_d_Suc0 fmt_d_2

section \<open>The partition into public and hidden prefixes\<close>




section \<open>Default-route planning\<close>

text \<open>
  Claim C8. If no peer of the local resource has the prefix of the network's Exit
  resource, \<open>prepareNonExitNode\<close> returns the error of \<open>getPeer\<close>; the result is the
  error alone, with no peers and no routes.
\<close>

theorem prepareNonExitNode_missing_exit:
  "(\<forall>p \<in> set (Peers localResource).
      IPNet_String L (PeerPrefix p) \<noteq> IPNet_String L (Prefix (Exit nw))) \<Longrightarrow>
   prepareNonExitNode L localResource nw = Inl (Errorf ''peer not found'')"
  by (simp add: prepareNonExitNode_def getPeer_not_found)

theorem prepareNonExitNode_missing_exit_witness:
  "list_all (\<lambda>p. IPNet_String lib0 (PeerPrefix p) \<noteq> IPNet_String lib0 (Prefix (Exit net0)))
     (Peers (resB [peerB]))
   \<and> prepareNonExitNode lib0 (resB [peerB]) net0 = Inl (Errorf ''peer not found'')"
  using prepareNonExitNode_missing_exit [of "resB [peerB]" lib0 net0]
  by (simp add: resB_def resA_def peerB_def net0_def lib0_def IPNet_String0_simps)

section \<open>Public-node planning\<close>

lemma preparePublic_loop_Inr:
  "preparePublic_loop L lr nw pub xs ps0 rs0 = Inr (ps, rs) \<Longrightarrow>
   map Endpoint ps = map Endpoint ps0 @
       map (\<lambda>p. if isIn (IPNet_String L (PeerPrefix p)) pub then endpoint L p else [])
         (filter (\<lambda>p. PeerType p = ConnTypeWireguard
                 \<and> IPNet_String L (PeerPrefix p) \<noteq> IPNet_String L (Prefix lr)) xs)
   \<and> map PublicKey ps = map PublicKey ps0 @
       map (\<lambda>p. Key (Connection p))
         (filter (\<lambda>p. PeerType p = ConnTypeWireguard
                 \<and> IPNet_String L (PeerPrefix p) \<noteq> IPNet_String L (Prefix lr)) xs)
   \<and> rs = rs0 @
       map (\<lambda>p. peerRoute L p (NewNibble L (PeerPrefix p) (AllocationNR nw)))
         (filter (\<lambda>p. IPNet_String L (PeerPrefix p) \<noteq> IPNet_String L (Prefix (Exit nw)))
           (filter (\<lambda>p. PeerType p = ConnTypeWireguard
                 \<and> IPNet_String L (PeerPrefix p) \<noteq> IPNet_String L (Prefix lr)) xs))"
proof (induction xs arbitrary: ps0 rs0)
  case Nil
  then show ?case by simp
next
  case (Cons p xs)
  let ?nb = "NewNibble L (PeerPrefix p) (AllocationNR nw)"
  show ?case
  proof (cases "PeerType p = ConnTypeWireguard
                 \<and> IPNet_String L (PeerPrefix p) \<noteq> IPNet_String L (Prefix lr)")
    case False
    with Cons.prems have "preparePublic_loop L lr nw pub xs ps0 rs0 = Inr (ps, rs)"
      by (auto split: if_splits)
    from Cons.IH [OF this] False show ?thesis by auto
  next
    case True
    with Cons.prems obtain a b where ab: "ToV4 ?nb = Inr (a, b)"
      by (auto simp: Let_def split: sum.splits)
    let ?wp = "\<lparr>PublicKey = Key (Connection p),
                 Endpoint = (if isIn (IPNet_String L (PeerPrefix p)) pub
                             then endpoint L p else []),
                 AllowedIPs = peerAllowedIPs L p ?nb a b\<rparr>"
    show ?thesis
    proof (cases "IPNet_String L (PeerPrefix p) = IPNet_String L (Prefix (Exit nw))")
      case e: True
      from True ab e Cons.prems
      have run: "preparePublic_loop L lr nw pub xs (ps0 @ [?wp]) rs0 = Inr (ps, rs)"
        by (cases "isIn (IPNet_String L (PeerPrefix p)) pub") (simp_all add: Let_def)
      from Cons.IH [OF run] True e show ?thesis by simp
    next
      case e: False
      from True ab e Cons.prems
      have run: "preparePublic_loop L lr nw pub xs (ps0 @ [?wp]) (rs0 @ [peerRoute L p ?nb])
                   = Inr (ps, rs)"
        by (cases "isIn (IPNet_String L (PeerPrefix p)) pub") (simp_all add: Let_def)
      from Cons.IH [OF run] True e show ?thesis by simp
    qed
  qed
qed

text \<open>
  Claim C7. When \<open>preparePublic\<close> returns, there is one peer entry for each included peer
  (WireGuard type, prefix other than the local one), in order; an entry carries an
  endpoint if and only if the peer's prefix is in the public partition, and then it is
  the peer's endpoint; and the routes are exactly one route to the peer's prefix via
  its link-local address \<^verbatim>\<open>fe80::<hex>\<close> for every included peer except those whose prefix
  is the prefix of the network's Exit.
\<close>

theorem preparePublic_endpoints_and_routes:
  "preparePublic L localResource nw = Inr (ps, rs) \<Longrightarrow>
   length ps = length (includedPeers L localResource)
   \<and> (\<forall>i < length (includedPeers L localResource).
        (Endpoint (ps ! i) \<noteq> []
           \<longleftrightarrow> isIn (IPNet_String L (PeerPrefix (includedPeers L localResource ! i)))
                 (publicPrefixes L (Resources nw)))
        \<and> (Endpoint (ps ! i) \<noteq> []
           \<longrightarrow> Endpoint (ps ! i) = endpoint L (includedPeers L localResource ! i)))
   \<and> rs = map (\<lambda>p. \<lparr>LinkIndex = 0, Dst = PeerPrefix p,
                     Gw = ParseIP L (''fe80::''
                            @ Hex (NewNibble L (PeerPrefix p) (AllocationNR nw)))\<rparr>)
             (filter (\<lambda>p. IPNet_String L (PeerPrefix p) \<noteq> IPNet_String L (Prefix (Exit nw)))
                (includedPeers L localResource))"
proof -
  assume run: "preparePublic L localResource nw = Inr (ps, rs)"
  let ?inc = "includedPeers L localResource"
  let ?pub = "publicPrefixes L (Resources nw)"
  let ?e = "\<lambda>p. if isIn (IPNet_String L (PeerPrefix p)) ?pub then endpoint L p else []"
  from run have
    "preparePublic_loop L localResource nw ?pub (Peers localResource) [] [] = Inr (ps, rs)"
    by (simp add: preparePublic_def)
  from preparePublic_loop_Inr [OF this]
  have E: "map Endpoint ps = map ?e ?inc"
    and R: "rs = map (\<lambda>p. peerRoute L p (NewNibble L (PeerPrefix p) (AllocationNR nw)))
                   (filter (\<lambda>p. IPNet_String L (PeerPrefix p) \<noteq> IPNet_String L (Prefix (Exit nw))) ?inc)"
    by (simp_all add: includedPeers_def)
  from E have len: "length ps = length ?inc"
    by (metis length_map)
  have "\<forall>i < length ?inc. Endpoint (ps ! i) = ?e (?inc ! i)"
  proof (intro allI impI)
    fix i assume i: "i < length ?inc"
    have "Endpoint (ps ! i) = map Endpoint ps ! i" using i len by simp
    also have "\<dots> = ?e (?inc ! i)" using i by (simp only: E nth_map)
    finally show "Endpoint (ps ! i) = ?e (?inc ! i)" .
  qed
  then have "\<forall>i < length ?inc.
        (Endpoint (ps ! i) \<noteq> [] \<longleftrightarrow> isIn (IPNet_String L (PeerPrefix (?inc ! i))) ?pub)
        \<and> (Endpoint (ps ! i) \<noteq> [] \<longrightarrow> Endpoint (ps ! i) = endpoint L (?inc ! i))"
    by (simp add: endpoint_nonempty)
  with len R show ?thesis
    by (simp add: peerRoute_def)
qed

theorem preparePublic_endpoints_and_routes_witness:
  "preparePublic lib0 (resC [peerA, peerB, peerC]) net1 =
     Inr ([\<lparr>PublicKey = ''keyA'', Endpoint = ''[185.69.166.121]:51820'',
            AllowedIPs = [''fe80::1/128'', ''172.16.0.1/32'', ''2001:db8:1::/64'']\<rparr>,
           \<lparr>PublicKey = ''keyB'', Endpoint = [],
            AllowedIPs = [''fe80::2/128'', ''172.16.0.2/32'', ''2001:db8:2::/64'']\<rparr>],
          [\<lparr>LinkIndex = 0, Dst = prefixB, Gw = ParseIP0 ''fe80::2''\<rparr>])
   \<and> includedPeers lib0 (resC [peerA, peerB, peerC]) = [peerA, peerB]
   \<and> publicPrefixes lib0 (Resources net1) = [''2001:db8:1::/64'', ''2001:db8:3::/64'']"
proof -
  have run: "preparePublic lib0 (resC [peerA, peerB, peerC]) net1 =
     Inr ([\<lparr>PublicKey = ''keyA'', Endpoint = ''[185.69.166.121]:51820'',
            AllowedIPs = [''fe80::1/128'', ''172.16.0.1/32'', ''2001:db8:1::/64'']\<rparr>,
           \<lparr>PublicKey = ''keyB'', Endpoint = [],
            AllowedIPs = [''fe80::2/128'', ''172.16.0.2/32'', ''2001:db8:2::/64'']\<rparr>],
          [\<lparr>LinkIndex = 0, Dst = prefixB, Gw = ParseIP0 ''fe80::2''\<rparr>])"
    using endpoint_peerA
    by (simp add: preparePublic_def concrete_defs)
  have inc: "includedPeers lib0 (resC [peerA, peerB, peerC]) = [peerA, peerB]"
    by (simp add: includedPeers_def concrete_defs)
  have pub: "publicPrefixes lib0 (Resources net1) = [''2001:db8:1::/64'', ''2001:db8:3::/64'']"
    by (simp add: concrete_defs)
  from preparePublic_endpoints_and_routes [OF run] run inc pub show ?thesis
    by simp
qed

section \<open>Hidden-node planning\<close>

lemma prepareHidden_loop_Inr:
  "prepareHidden_loop L lr nw pub xs ps0 rs0 = Inr (ps, rs) \<Longrightarrow>
   map Endpoint ps = map Endpoint ps0 @
       map (endpoint L)
         (filter (\<lambda>p. isIn (IPNet_String L (PeerPrefix p)) pub)
           (filter (\<lambda>p. PeerType p = ConnTypeWireguard
                 \<and> IPNet_String L (PeerPrefix p) \<noteq> IPNet_String L (Prefix lr)) xs))
   \<and> rs = rs0 @
       map (\<lambda>p. peerRoute L p (NewNibble L (PeerPrefix p) (AllocationNR nw)))
         (filter (\<lambda>p. isIn (IPNet_String L (PeerPrefix p)) pub)
           (filter (\<lambda>p. PeerType p = ConnTypeWireguard
                 \<and> IPNet_String L (PeerPrefix p) \<noteq> IPNet_String L (Prefix lr)) xs))"
proof (induction xs arbitrary: ps0 rs0)
  case Nil
  then show ?case by simp
next
  case (Cons p xs)
  let ?nb = "NewNibble L (PeerPrefix p) (AllocationNR nw)"
  show ?case
  proof (cases "PeerType p = ConnTypeWireguard
                 \<and> IPNet_String L (PeerPrefix p) \<noteq> IPNet_String L (Prefix lr)")
    case False
    with Cons.prems have "prepareHidden_loop L lr nw pub xs ps0 rs0 = Inr (ps, rs)"
      by (auto split: if_splits)
    from Cons.IH [OF this] False show ?thesis by auto
  next
    case True
    with Cons.prems obtain a b where ab: "ToV4 ?nb = Inr (a, b)"
      by (auto simp: Let_def split: sum.splits)
    show ?thesis
    proof (cases "isIn (IPNet_String L (PeerPrefix p)) pub")
      case e: False
      with True ab Cons.prems have "prepareHidden_loop L lr nw pub xs ps0 rs0 = Inr (ps, rs)"
        by (simp add: Let_def)
      from Cons.IH [OF this] True e show ?thesis by simp
    next
      case e: True
      let ?wp = "\<lparr>PublicKey = Key (Connection p), Endpoint = endpoint L p,
                   AllowedIPs = peerAllowedIPs L p ?nb a b\<rparr>"
      from True ab e Cons.prems
      have run: "prepareHidden_loop L lr nw pub xs (ps0 @ [?wp]) (rs0 @ [peerRoute L p ?nb])
                   = Inr (ps, rs)"
        by (simp add: Let_def)
      from Cons.IH [OF run] True e show ?thesis by simp
    qed
  qed
qed

text \<open>
  Claim C2, as amended. When \<open>prepareHidden\<close> returns, the destination of every route is
  the prefix of a resource classified as Public (the loop tests membership in
  \<open>publicPrefixes\<close>, not in \<open>hiddenPrefixes\<close>), and the returned peers are exactly the
  included peers whose resource is Public, each stamped with its endpoint.
\<close>

theorem prepareHidden_public_only:
  "prepareHidden L localResource nw = Inr (ps, rs) \<Longrightarrow>
   (\<forall>r \<in> set rs. \<exists>res \<in> set (Resources nw).
        isPublic (NodeID res) \<and> IPNet_String L (Prefix res) = IPNet_String L (Dst r))
   \<and> map Endpoint ps =
       map (endpoint L)
         (filter (\<lambda>p. \<exists>res \<in> set (Resources nw).
                    isPublic (NodeID res)
                    \<and> IPNet_String L (Prefix res) = IPNet_String L (PeerPrefix p))
            (includedPeers L localResource))"
proof -
  assume run: "prepareHidden L localResource nw = Inr (ps, rs)"
  let ?pub = "publicPrefixes L (Resources nw)"
  from run have
    "prepareHidden_loop L localResource nw ?pub (Peers localResource) [] [] = Inr (ps, rs)"
    by (simp add: prepareHidden_def)
  from prepareHidden_loop_Inr [OF this]
  have E: "map Endpoint ps = map (endpoint L)
             (filter (\<lambda>p. isIn (IPNet_String L (PeerPrefix p)) ?pub) (includedPeers L localResource))"
    and R: "rs = map (\<lambda>p. peerRoute L p (NewNibble L (PeerPrefix p) (AllocationNR nw)))
             (filter (\<lambda>p. isIn (IPNet_String L (PeerPrefix p)) ?pub) (includedPeers L localResource))"
    by (simp_all add: includedPeers_def)
  from R have "\<forall>r \<in> set rs. \<exists>res \<in> set (Resources nw).
        isPublic (NodeID res) \<and> IPNet_String L (Prefix res) = IPNet_String L (Dst r)"
    by (auto simp: peerRoute_def isIn_publicPrefixes)
  with E show ?thesis
    by (simp add: isIn_publicPrefixes)
qed

theorem prepareHidden_public_only_witness:
  "prepareHidden lib0 (resB [peerA]) net0 =
     Inr ([\<lparr>PublicKey = ''keyA'', Endpoint = ''[185.69.166.121]:51820'',
            AllowedIPs = [''fe80::1/128'', ''172.16.0.1/32'', ''2001:db8:1::/64'']\<rparr>],
          [\<lparr>LinkIndex = 0, Dst = prefixA, Gw = ParseIP0 ''fe80::1''\<rparr>])
   \<and> (\<exists>res \<in> set (Resources net0).
         isPublic (NodeID res) \<and> IPNet_String lib0 (Prefix res) = IPNet_String lib0 prefixA)"
proof -
  have run: "prepareHidden lib0 (resB [peerA]) net0 =
     Inr ([\<lparr>PublicKey = ''keyA'', Endpoint = ''[185.69.166.121]:51820'',
            AllowedIPs = [''fe80::1/128'', ''172.16.0.1/32'', ''2001:db8:1::/64'']\<rparr>],
          [\<lparr>LinkIndex = 0, Dst = prefixA, Gw = ParseIP0 ''fe80::1''\<rparr>])"
    using endpoint_peerA
    by (simp add: prepareHidden_def concrete_defs)
  from prepareHidden_public_only [OF run] run show ?thesis
    by simp
qed

text \<open>
  On the scenario network, planning for the hidden resource B yields a route to the
  prefix of A. A is Public and not Hidden: its prefix is not among the hidden prefixes.
\<close>

theorem prepareHidden_routes_counterexample:
  "prepareHidden lib0 (resB [peerA]) net0 =
     Inr ([\<lparr>PublicKey = ''keyA'', Endpoint = ''[185.69.166.121]:51820'',
            AllowedIPs = [''fe80::1/128'', ''172.16.0.1/32'', ''2001:db8:1::/64'']\<rparr>],
          [\<lparr>LinkIndex = 0, Dst = prefixA, Gw = ParseIP0 ''fe80::1''\<rparr>])
   \<and> IPNet_String lib0 prefixA = ''2001:db8:1::/64''
   \<and> hiddenPrefixes lib0 (Resources net0) = [''2001:db8:2::/64'']"
  using endpoint_peerA
  by (simp add: prepareHidden_def concrete_defs)

section \<open>What the planning loops skip\<close>

text \<open>
  The loops of \<open>preparePublic\<close>, \<open>prepareHidden\<close> and \<open>configureExitNetNR\<close> give the same
  result when the peers with another connection type and the peers with the local
  prefix are removed from the peer list beforehand: such peers contribute nothing.
\<close>

lemma preparePublic_loop_skips:
  "preparePublic_loop L lr nw pub
     (filter (\<lambda>p. PeerType p = ConnTypeWireguard
                 \<and> IPNet_String L (PeerPrefix p) \<noteq> IPNet_String L (Prefix lr)) xs) ps rs
   = preparePublic_loop L lr nw pub xs ps rs"
  by (induction xs arbitrary: ps rs) (simp_all add: Let_def split: sum.splits prod.splits)

lemma prepareHidden_loop_skips:
  "prepareHidden_loop L lr nw pub
     (filter (\<lambda>p. PeerType p = ConnTypeWireguard
                 \<and> IPNet_String L (PeerPrefix p) \<noteq> IPNet_String L (Prefix lr)) xs) ps rs
   = prepareHidden_loop L lr nw pub xs ps rs"
  by (induction xs arbitrary: ps rs) (simp_all add: Let_def split: sum.splits prod.splits)

lemma configureExitNetNR_loop_skips:
  "configureExitNetNR_loop L lr nw hid
     (filter (\<lambda>p. PeerType p = ConnTypeWireguard
                 \<and> IPNet_String L (PeerPrefix p) \<noteq> IPNet_String L (Prefix lr)) xs) ps rs
   = configureExitNetNR_loop L lr nw hid xs ps rs"
  by (induction xs arbitrary: ps rs) (simp_all add: Let_def split: sum.splits prod.splits)

section \<open>What default-route planning returns\<close>

lemma prepareNonExitNode_non_exit:
  assumes "getPeer L (IPNet_String L (Prefix (Exit nw))) (Peers localResource) = Inr exitPeer"
    and "IPNet_String L (Prefix localResource) \<noteq> IPNet_String L (Prefix (Exit nw))"
    and "ToV4 (NewNibble L (PeerPrefix exitPeer) (AllocationNR nw)) = Inr (a, b)"
  shows "prepareNonExitNode L localResource nw =
     Inr ([\<lparr>PublicKey = Key (Connection exitPeer), Endpoint = endpoint L exitPeer,
            AllowedIPs = [''0.0.0.0/0'', ''::/0'']\<rparr>],
          [\<lparr>LinkIndex = 0,
            Dst = \<lparr>net_IP = ParseIP L ''::'', net_Mask = CIDRMask 64 128\<rparr>,
            Gw = ParseIP L (''fe80::''
                   @ Hex (NewNibble L (PeerPrefix exitPeer) (AllocationNR nw)))\<rparr>,
           \<lparr>LinkIndex = 0,
            Dst = \<lparr>net_IP = ParseIP L (''10.'' @ fmt_d (unat a) @ ''.'' @ fmt_d (unat b) @ ''.0''),
                   net_Mask = CIDRMask 24 32\<rparr>,
            Gw = ParseIP L (''172.16.'' @ fmt_d (unat a) @ ''.'' @ fmt_d (unat b))\<rparr>,
           \<lparr>LinkIndex = 0,
            Dst = \<lparr>net_IP = ParseIP L ''0.0.0.0'', net_Mask = CIDRMask 0 32\<rparr>,
            Gw = ParseIP L (''172.16.'' @ fmt_d (unat a) @ ''.'' @ fmt_d (unat b))\<rparr>])"
  using assms by (simp add: prepareNonExitNode_def Let_def)

lemma prepareNonExitNode_on_exit:
  assumes "getPeer L (IPNet_String L (Prefix (Exit nw))) (Peers localResource) = Inr exitPeer"
    and "IPNet_String L (Prefix localResource) = IPNet_String L (Prefix (Exit nw))"
  shows "prepareNonExitNode L localResource nw =
     Inr ([\<lparr>PublicKey = Key (Connection exitPeer), Endpoint = endpoint L exitPeer,
            AllowedIPs = [''0.0.0.0/0'', ''::/0'']\<rparr>], [])"
  using assms by (simp add: prepareNonExitNode_def Let_def)

text \<open>
  Claim C1. On the scenario network, planning the default routes of B (not the Exit)
  returns three routes. The first one is meant as the IPv6 default route, yet its mask
  is \<^verbatim>\<open>CIDRMask(64, 128)\<close>: the destination is \<^verbatim>\<open>::/64\<close>, whereas the catch-all \<^verbatim>\<open>::/0\<close>
  has the all-zero mask \<^verbatim>\<open>CIDRMask(0, 128)\<close>.
\<close>

theorem prepareNonExitNode_ipv6_route_not_default:
  "prepareNonExitNode lib0 (resB [peerA]) net0 =
     Inr ([\<lparr>PublicKey = ''keyA'', Endpoint = ''[185.69.166.121]:51820'',
            AllowedIPs = [''0.0.0.0/0'', ''::/0'']\<rparr>],
          [\<lparr>LinkIndex = 0,
            Dst = \<lparr>net_IP = [0, 0, 0, 0, 0, 0, 0, 0, 0, 0, 0, 0, 0, 0, 0, 0],
                   net_Mask = [255, 255, 255, 255, 255, 255, 255, 255, 0, 0, 0, 0, 0, 0, 0, 0]\<rparr>,
            Gw = [0xfe, 0x80, 0, 0, 0, 0, 0, 0, 0, 0, 0, 0, 0, 0, 0, 1]\<rparr>,
           \<lparr>LinkIndex = 0,
            Dst = \<lparr>net_IP = [0, 0, 0, 0, 0, 0, 0, 0, 0, 0, 0xff, 0xff, 10, 0, 1, 0],
                   net_Mask = [255, 255, 255, 0]\<rparr>,
            Gw = [0, 0, 0, 0, 0, 0, 0, 0, 0, 0, 0xff, 0xff, 172, 16, 0, 1]\<rparr>,
           \<lparr>LinkIndex = 0,
            Dst = \<lparr>net_IP = [0, 0, 0, 0, 0, 0, 0, 0, 0, 0, 0xff, 0xff, 0, 0, 0, 0],
                   net_Mask = [0, 0, 0, 0]\<rparr>,
            Gw = [0, 0, 0, 0, 0, 0, 0, 0, 0, 0, 0xff, 0xff, 172, 16, 0, 1]\<rparr>])
   \<and> CIDRMask 0 128 = [0, 0, 0, 0, 0, 0, 0, 0, 0, 0, 0, 0, 0, 0, 0, 0]"
  using endpoint_peerA
  by (simp add: prepareNonExitNode_def Let_def concrete_defs CIDRMask_values ParseIP0_def
      v4InV6Prefix_def)

text \<open>
  Claim C5. \<open>prepareNonExitNode\<close> looks the Exit peer up by prefix alone. A peer entry
  for the Exit whose connection type is not WireGuard still yields a peer entry and
  the three routes.
\<close>

theorem prepareNonExitNode_other_conn_type:
  "PeerType peerA_other = ConnTypeOther
   \<and> prepareNonExitNode lib0 (resB [peerA_other]) net0 =
     Inr ([\<lparr>PublicKey = ''keyA'', Endpoint = ''[185.69.166.121]:51820'',
            AllowedIPs = [''0.0.0.0/0'', ''::/0'']\<rparr>],
          [\<lparr>LinkIndex = 0,
            Dst = \<lparr>net_IP = ParseIP0 ''::'', net_Mask = CIDRMask 64 128\<rparr>,
            Gw = ParseIP0 ''fe80::1''\<rparr>,
           \<lparr>LinkIndex = 0,
            Dst = \<lparr>net_IP = ParseIP0 ''10.0.1.0'', net_Mask = CIDRMask 24 32\<rparr>,
            Gw = ParseIP0 ''172.16.0.1''\<rparr>,
           \<lparr>LinkIndex = 0,
            Dst = \<lparr>net_IP = ParseIP0 ''0.0.0.0'', net_Mask = CIDRMask 0 32\<rparr>,
            Gw = ParseIP0 ''172.16.0.1''\<rparr>])"
  using endpoint_peerA_other
  by (simp add: prepareNonExitNode_def Let_def concrete_defs)

text \<open>
  Claim C6. When the local resource is the Exit and lists itself among its peers,
  \<open>prepareNonExitNode\<close> returns a peer entry for the local resource's own prefix.
\<close>

theorem prepareNonExitNode_self_peer:
  "IPNet_String lib0 (PeerPrefix peerA) = IPNet_String lib0 (Prefix (resA [peerA, peerB]))
   \<and> IPNet_String lib0 (Prefix (resA [peerA, peerB])) = IPNet_String lib0 (Prefix (Exit net0))
   \<and> prepareNonExitNode lib0 (resA [peerA, peerB]) net0 =
     Inr ([\<lparr>PublicKey = ''keyA'', Endpoint = ''[185.69.166.121]:51820'',
            AllowedIPs = [''0.0.0.0/0'', ''::/0'']\<rparr>], [])"
  using endpoint_peerA
  by (simp add: prepareNonExitNode_def Let_def concrete_defs)

section \<open>Applying a plan twice\<close>








section \<open>The candidate search of the storage allocator\<close>

lemma candidates_volumes_passed:
  "list_all (volumePassed F sz u) vs1 \<Longrightarrow>
   Allocate2_candidates_volumes F sz u (vs1 @ vs) cs = Allocate2_candidates_volumes F sz u vs cs"
  by (induction vs1) (auto simp: volumePassed_def Let_def split: sum.splits if_splits)

lemma candidates_volumes_fits:
  "volumeFits F sz u v \<Longrightarrow>
   Allocate2_candidates_volumes F sz u (v # vs) cs = Inl (Allocation_zero, None)"
  by (auto simp: volumeFits_def Let_def split: sum.splits)

lemma candidates_volumes_Inr:
  "Allocate2_candidates_volumes F sz u vs cs = Inr cs' \<Longrightarrow> cs' = cs"
  by (induction vs) (auto simp: Let_def split: sum.splits if_splits)

lemma candidates_pools_Inr:
  "Allocate2_candidates_pools F diskType sz pools cs = Inr cs' \<Longrightarrow> cs' = cs"
  by (induction pools arbitrary: cs)
     (auto split: sum.splits if_splits dest: candidates_volumes_Inr)

lemma candidates_pools_passed:
  "list_all (poolPassed F diskType sz) ps1 \<Longrightarrow>
   Allocate2_candidates_pools F diskType sz (ps1 @ ps) cs
     = Allocate2_candidates_pools F diskType sz ps cs"
proof (induction ps1)
  case Nil
  then show ?case by simp
next
  case (Cons q ps1)
  show ?case
  proof (cases "pool_Type q = diskType")
    case False
    with Cons show ?thesis by simp
  next
    case True
    with Cons.prems obtain u vs where q: "pool_Usage q = Inr u" "pool_Volumes q = Inr vs"
      "list_all (volumePassed F sz u) vs"
      by (auto simp: poolPassed_def split: sum.splits)
    from candidates_volumes_passed [OF q(3), of "[]" cs]
    have "Allocate2_candidates_volumes F sz u vs cs = Inr cs" by simp
    with True q Cons show ?thesis by simp
  qed
qed

text \<open>
  Claim C9. Suppose the first pair of loops of \<open>Allocate2\<close> finds no volume holding the
  namespace, and the candidate search moves past the pools \<open>ps1\<close> and the volumes \<open>vs1\<close>
  and then meets a zdb volume \<open>v\<close> with enough free space. Then \<open>Allocate2\<close> returns the
  zero-value \<open>Allocation\<close> with a nil error, whatever the remaining volumes \<open>vs2\<close> and
  pools \<open>ps2\<close> are: they are not examined, and no candidate is compared with another.
  Moreover, whenever the candidate search runs to its end, the list of candidates is
  empty, so the sort by free space is never reached with a candidate.
\<close>

theorem Allocate2_short_circuit:
  "(Allocate2_find_pools F nsID diskType (ps1 @ p # ps2) = None
    \<and> list_all (poolPassed F diskType sz) ps1
    \<and> pool_Type p = diskType \<and> pool_Usage p = Inr usageSize
    \<and> pool_Volumes p = Inr (vs1 @ v # vs2)
    \<and> list_all (volumePassed F sz usageSize) vs1
    \<and> volumeFits F sz usageSize v
    \<longrightarrow> Allocate2 F (ps1 @ p # ps2) nsID diskType sz mode = (Allocation_zero, None))
   \<and> (Allocate2_candidates_pools F diskType sz pools [] = Inr candidates
        \<longrightarrow> candidates = [])"
proof (intro conjI impI)
  assume a: "Allocate2_find_pools F nsID diskType (ps1 @ p # ps2) = None
    \<and> list_all (poolPassed F diskType sz) ps1
    \<and> pool_Type p = diskType \<and> pool_Usage p = Inr usageSize
    \<and> pool_Volumes p = Inr (vs1 @ v # vs2)
    \<and> list_all (volumePassed F sz usageSize) vs1
    \<and> volumeFits F sz usageSize v"
  then have "Allocate2_candidates_volumes F sz usageSize (vs1 @ v # vs2) []
               = Inl (Allocation_zero, None)"
    by (simp add: candidates_volumes_passed candidates_volumes_fits del: Allocate2_candidates_volumes.simps)
  with a have "Allocate2_candidates_pools F diskType sz (ps1 @ p # ps2) []
               = Inl (Allocation_zero, None)"
    by (simp add: candidates_pools_passed)
  with a show "Allocate2 F (ps1 @ p # ps2) nsID diskType sz mode = (Allocation_zero, None)"
    by (simp add: Allocate2_def)
next
  assume "Allocate2_candidates_pools F diskType sz pools [] = Inr candidates"
  then show "candidates = []" by (rule candidates_pools_Inr)
qed

theorem Allocate2_short_circuit_witness:
  "Allocate2_find_pools fs0 ''ns1'' ''SSD'' [poolHDD, poolSSD] = None
   \<and> list_all (volumePassed fs0 10 100) [vol0 ''data'', vol0 ''zdb0'']
   \<and> volumeFits fs0 10 100 (vol0 ''zdb1'')
   \<and> volumeFits fs0 10 100 (vol0 ''zdb2'')
   \<and> map_sum id Total (ListNamespaces fs0 (vol0 ''zdb1'')) = Inr 90
   \<and> map_sum id Total (ListNamespaces fs0 (vol0 ''zdb2'')) = Inr 0
   \<and> Allocate2 fs0 [poolHDD, poolSSD] ''ns1'' ''SSD'' 10 ''seq'' = (Allocation_zero, None)"
proof -
  have find: "Allocate2_find_pools fs0 ''ns1'' ''SSD'' ([poolHDD] @ poolSSD # []) = None"
    by code_simp
  have hdd: "list_all (poolPassed fs0 ''SSD'' 10) [poolHDD]"
    by code_simp
  have ssd: "pool_Type poolSSD = ''SSD''" "pool_Usage poolSSD = Inr 100"
    "pool_Volumes poolSSD = Inr ([vol0 ''data'', vol0 ''zdb0''] @ vol0 ''zdb1'' # [vol0 ''zdb2''])"
    by (simp_all add: poolSSD_def)
  have passed: "list_all (volumePassed fs0 10 100) [vol0 ''data'', vol0 ''zdb0'']"
    by code_simp
  have fits: "volumeFits fs0 10 100 (vol0 ''zdb1'')" "volumeFits fs0 10 100 (vol0 ''zdb2'')"
    by code_simp+
  have totals: "map_sum id Total (ListNamespaces fs0 (vol0 ''zdb1'')) = Inr 90"
    "map_sum id Total (ListNamespaces fs0 (vol0 ''zdb2'')) = Inr 0"
    by code_simp+
  from Allocate2_short_circuit [of fs0 "''ns1''" "''SSD''" "[poolHDD]" poolSSD "[]" 10 100
      "[vol0 ''data'', vol0 ''zdb0'']" "vol0 ''zdb1''" "[vol0 ''zdb2'']" "''seq''"]
    find hdd ssd passed fits
  have "Allocate2 fs0 [poolHDD, poolSSD] ''ns1'' ''SSD'' 10 ''seq'' = (Allocation_zero, None)"
    by simp
  with find passed fits totals show ?thesis by simp
qed

end
